theory Spec2Isabelle
  imports Complex_Main
begin

section \<open>Texts\<close>

text \<open>
  Python strings are modelled as \<^typ>\<open>string\<close>: a list of characters with codes
  0 to 255, read as the code points of the text. Python floats are modelled as
  \<^typ>\<open>real\<close>; the one place where the conversion of an integer to a float can
  fail (\<open>OverflowError\<close>) is written out in \<open>exponential_backoff_with_jitter\<close>.
\<close>

definition py_lower_char :: "char \<Rightarrow> char" where
  \<comment> \<open>\<open>str.lower\<close> on one character: A..Z and the Latin-1 capitals.\<close>
  "py_lower_char c =
     (let n = (of_char c :: nat)
      in if (65 \<le> n \<and> n \<le> 90) \<or> (192 \<le> n \<and> n \<le> 222 \<and> n \<noteq> 215)
         then char_of (n + 32) else c)"

definition lower :: "string \<Rightarrow> string" where
  "lower s = map py_lower_char s"

definition starts_with :: "string \<Rightarrow> string \<Rightarrow> bool" where
  \<comment> \<open>\<open>starts_with p s\<close>: the text \<open>s\<close> begins with \<open>p\<close>.\<close>
  "starts_with p s = (take (length p) s = p)"

fun contains :: "string \<Rightarrow> string \<Rightarrow> bool" where
  \<comment> \<open>\<open>contains p s\<close> is Python's \<open>p in s\<close>.\<close>
  "contains p [] = (p = [])"
| "contains p (c # cs) = (starts_with p (c # cs) \<or> contains p cs)"

definition is_space :: "char \<Rightarrow> bool" where
  \<comment> \<open>The class \<open>\s\<close> of a \<open>str\<close> pattern, on the code points below 256.\<close>
  "is_space c =
     (let n = (of_char c :: nat)
      in (9 \<le> n \<and> n \<le> 13) \<or> (28 \<le> n \<and> n \<le> 32) \<or> n = 133 \<or> n = 160)"

definition is_id_char :: "char \<Rightarrow> bool" where
  \<comment> \<open>The class \<open>[a-zA-Z0-9_-]\<close>.\<close>
  "is_id_char c =
     (let n = (of_char c :: nat)
      in (97 \<le> n \<and> n \<le> 122) \<or> (65 \<le> n \<and> n \<le> 90) \<or> (48 \<le> n \<and> n \<le> 57)
         \<or> n = 95 \<or> n = 45)"

definition non_space_run :: "string \<Rightarrow> string" where
  \<comment> \<open>What a greedy \<open>[^\s]*\<close> consumes at the head of a text.\<close>
  "non_space_run s = takeWhile (\<lambda>c. \<not> is_space c) s"

definition after_non_space_run :: "string \<Rightarrow> string" where
  "after_non_space_run s = dropWhile (\<lambda>c. \<not> is_space c) s"

section \<open>\<open>sanitize_error_message\<close>\<close>

text \<open>
  The three \<open>re.sub\<close> calls, each a scan from the left that replaces every
  leftmost, non-overlapping match. None of the three patterns matches the empty text.
\<close>

definition sheet_id_at :: "string \<Rightarrow> bool" where
  \<comment> \<open>\<open>[a-zA-Z0-9_-]{44}\<close> matches at the head of the text.\<close>
  "sheet_id_at s = (44 \<le> length s \<and> list_all is_id_char (take 44 s))"

function sub_sheet_id :: "string \<Rightarrow> string" where
  "sub_sheet_id [] = []"
| "sub_sheet_id (c # cs) =
     (if sheet_id_at (c # cs) then ''[SHEET_ID]'' @ sub_sheet_id (drop 44 (c # cs))
      else c # sub_sheet_id cs)"
  by pat_completeness auto
termination
  by (relation "measure length") auto

definition sheets_url_at :: "string \<Rightarrow> bool" where
  \<comment> \<open>\<open>https://sheets\.googleapis\.com/[^\s]*\<close> matches at the head of the text.\<close>
  "sheets_url_at s = starts_with ''https://sheets.googleapis.com/'' s"

function sub_sheets_url :: "string \<Rightarrow> string" where
  "sub_sheets_url [] = []"
| "sub_sheets_url (c # cs) =
     (if sheets_url_at (c # cs)
      then ''[SHEETS_API_URL]'' @ sub_sheets_url (after_non_space_run (drop 30 (c # cs)))
      else c # sub_sheets_url cs)"
  by pat_completeness auto
termination
proof (relation "measure length")
  show "wf (measure (length :: string \<Rightarrow> nat))" by simp
next
  fix c :: char and cs :: string
  have "length (after_non_space_run (drop 30 (c # cs))) \<le> length (drop 30 (c # cs))"
    unfolding after_non_space_run_def by (rule length_dropWhile_le)
  then show "(after_non_space_run (drop 30 (c # cs)), c # cs) \<in> measure length"
    by simp
next
  fix c :: char and cs :: string
  show "(cs, c # cs) \<in> measure length" by simp
qed

definition google_url_at :: "string \<Rightarrow> bool" where
  \<comment> \<open>\<open>https://[^\s]*googleapis\.com[^\s]*\<close> matches at the head of the text: the
      run of non-space characters after \<open>https://\<close> holds \<open>googleapis.com\<close>; the
      match then extends to the end of that run.\<close>
  "google_url_at s =
     (starts_with ''https://'' s \<and> contains ''googleapis.com'' (non_space_run (drop 8 s)))"

function sub_google_url :: "string \<Rightarrow> string" where
  "sub_google_url [] = []"
| "sub_google_url (c # cs) =
     (if google_url_at (c # cs)
      then ''[GOOGLE_API_URL]'' @ sub_google_url (after_non_space_run (drop 8 (c # cs)))
      else c # sub_google_url cs)"
  by pat_completeness auto
termination
proof (relation "measure length")
  show "wf (measure (length :: string \<Rightarrow> nat))" by simp
next
  fix c :: char and cs :: string
  have "length (after_non_space_run (drop 8 (c # cs))) \<le> length (drop 8 (c # cs))"
    unfolding after_non_space_run_def by (rule length_dropWhile_le)
  then show "(after_non_space_run (drop 8 (c # cs)), c # cs) \<in> measure length"
    by simp
next
  fix c :: char and cs :: string
  show "(cs, c # cs) \<in> measure length" by simp
qed

definition sanitize_error_message :: "string \<Rightarrow> string" where
  "sanitize_error_message error_msg =
     sub_google_url (sub_sheets_url (sub_sheet_id error_msg))"

section \<open>The failures of a wrapped call\<close>

text \<open>
  What the wrapper reads of an exception \<open>e\<close>: \<open>e.resp.status\<close> (when \<open>e\<close> has
  \<open>resp\<close> and \<open>resp\<close> has \<open>status\<close>), the attribute \<open>retry-after\<close> of
  \<open>e.resp\<close> (when the object has one) and \<open>str(e)\<close>.
\<close>

record failure =
  status :: "int option"
  retry_after :: "string option"
  message :: string

text \<open>
  The exceptions with a \<open>resp\<close> that reach the wrapper are the \<open>HttpError\<close> of the
  Google client, and their \<open>resp\<close> is an \<open>httplib2.Response\<close>: a dict whose items are
  the headers of the response, with the status, the reason and the protocol version as
  attributes. Its attribute lookup gives those attributes and \<open>dict\<close> (the object
  itself) and raises \<open>AttributeError\<close> for every other name, so that \<open>getattr\<close> with
  a default gives the default: a header is an item, not an attribute.
\<close>

record response =
  resp_status :: int
  resp_reason :: string
  resp_headers :: "(string \<times> string) list"

datatype attribute = Number int | Text string | Items "(string \<times> string) list"

definition response_getattr :: "response \<Rightarrow> string \<Rightarrow> attribute option" where
  \<comment> \<open>\<open>getattr(resp, name, None)\<close> on an \<open>httplib2.Response\<close>\<close>
  "response_getattr resp name =
     (if name = ''status'' then Some (Number (resp_status resp))
      else if name = ''reason'' then Some (Text (resp_reason resp))
      else if name = ''version'' then Some (Number 11)
      else if name = ''dict'' then Some (Items (resp_headers resp))
      else None)"

definition http_error :: "response \<Rightarrow> string \<Rightarrow> failure" where
  \<comment> \<open>What the wrapper reads of an \<open>HttpError\<close> with the response \<open>resp\<close> and the
      text \<open>msg\<close>: \<open>e.resp.status\<close>, \<open>getattr(e.resp, 'retry-after', None)\<close>, \<open>str(e)\<close>.\<close>
  "http_error resp msg =
     \<lparr>status = (case response_getattr resp ''status'' of
                   Some (Number n) \<Rightarrow> Some n | _ \<Rightarrow> None),
      retry_after = (case response_getattr resp ''retry-after'' of
                        Some (Text h) \<Rightarrow> Some h | _ \<Rightarrow> None),
      message = msg\<rparr>"

text \<open>
  What the wrapper raises: the failure of the wrapped call, or an exception of the
  handler itself. \<open>ValueError\<close>: \<open>float(retry_after)\<close> on a text that is no number, or
  \<open>time.sleep\<close> of a negative delay. \<open>OverflowError\<close>: the conversion of
  \<open>2 ** attempt\<close> to a float. \<open>TypeError\<close>: \<open>raise None\<close>.
\<close>

datatype error = Failure failure | ValueError | OverflowError | TypeError

datatype failure_kind = Rate_limited | Transient_server | Quota_textual | Non_retryable

definition quota_or_rate :: "string \<Rightarrow> bool" where
  \<comment> \<open>\<open>"quota" in str(e).lower() or "rate" in str(e).lower()\<close>\<close>
  "quota_or_rate msg = (contains ''quota'' (lower msg) \<or> contains ''rate'' (lower msg))"

definition classify :: "failure \<Rightarrow> failure_kind" where
  \<comment> \<open>The branches of the handler, in the order of the source.\<close>
  "classify e =
     (case status e of
        Some status_code \<Rightarrow>
          if status_code = 429 then Rate_limited
          else if status_code \<ge> 500 then Transient_server
          else Non_retryable
      | None \<Rightarrow> if quota_or_rate (message e) then Quota_textual else Non_retryable)"

section \<open>\<open>RateLimiter\<close>\<close>

record RateLimiter =
  max_retries :: int
  base_delay :: real
  max_delay :: real

definition RateLimiter_init :: "int \<Rightarrow> RateLimiter" where
  "RateLimiter_init n = \<lparr>max_retries = n, base_delay = 1.0, max_delay = 60.0\<rparr>"

definition default_limiter :: RateLimiter where
  \<comment> \<open>\<open>RateLimiter()\<close>, the only construction in the source.\<close>
  "default_limiter = RateLimiter_init 5"

definition backoff :: "RateLimiter \<Rightarrow> nat \<Rightarrow> real" where
  \<comment> \<open>\<open>min(self.base_delay * (2 ** attempt), self.max_delay)\<close>\<close>
  "backoff rl attempt = min (base_delay rl * 2 ^ attempt) (max_delay rl)"

definition exponential_backoff_with_jitter :: "RateLimiter \<Rightarrow> real \<Rightarrow> nat \<Rightarrow> error + real" where
  \<comment> \<open>\<open>r\<close> is the value of \<open>random.random()\<close>. The integer \<open>2 ** attempt\<close> is
      converted to a float for the product, which raises from \<open>2 ** 1024\<close> on.\<close>
  "exponential_backoff_with_jitter rl r attempt =
     (if 1024 \<le> attempt then Inl OverflowError
      else let delay = backoff rl attempt;
               jitter = delay * 0.25 * r
           in Inr (delay + jitter))"

datatype log =
    Success_after nat
  | Rate_limited_header real
  | Rate_limited_backoff real
  | Server_error int real
  | Non_retryable_status int string
  | Quota_rate real
  | Non_retryable_error string
  | Max_retries_exceeded int
  | Fetch_failed string string
  | Upload_failed string string
  | Uploaded string string

datatype event = Call nat | Sleep real | Log log

datatype decision = Wait real | Break | Raise error

text \<open>
  The body of \<open>except Exception as e\<close> up to the choice of the delay. \<open>to_float\<close> is
  the builtin \<open>float\<close> on a text (\<open>None\<close> where it raises \<open>ValueError\<close>).
\<close>

definition on_failure ::
  "RateLimiter \<Rightarrow> (string \<Rightarrow> real option) \<Rightarrow> real \<Rightarrow> nat \<Rightarrow> failure \<Rightarrow> event list \<times> decision" where
  "on_failure rl to_float r attempt e =
     (case status e of
        Some status_code \<Rightarrow>
          if status_code = 429 then
            (case retry_after e of
               Some h \<Rightarrow>
                 if h \<noteq> [] then
                   (case to_float h of
                      Some delay \<Rightarrow> ([Log (Rate_limited_header delay)], Wait delay)
                    | None \<Rightarrow> ([], Raise ValueError))
                 else
                   (case exponential_backoff_with_jitter rl r attempt of
                      Inr delay \<Rightarrow> ([Log (Rate_limited_backoff delay)], Wait delay)
                    | Inl err \<Rightarrow> ([], Raise err))
             | None \<Rightarrow>
                 (case exponential_backoff_with_jitter rl r attempt of
                    Inr delay \<Rightarrow> ([Log (Rate_limited_backoff delay)], Wait delay)
                  | Inl err \<Rightarrow> ([], Raise err)))
          else if status_code \<ge> 500 then
            (case exponential_backoff_with_jitter rl r attempt of
               Inr delay \<Rightarrow> ([Log (Server_error status_code delay)], Wait delay)
             | Inl err \<Rightarrow> ([], Raise err))
          else
            ([Log (Non_retryable_status status_code (sanitize_error_message (message e)))],
             Break)
      | None \<Rightarrow>
          if quota_or_rate (message e) then
            (case exponential_backoff_with_jitter rl r attempt of
               Inr delay \<Rightarrow> ([Log (Quota_rate delay)], Wait delay)
             | Inl err \<Rightarrow> ([], Raise err))
          else
            ([Log (Non_retryable_error (sanitize_error_message (message e)))], Break))"

definition raise_last :: "failure option \<Rightarrow> error + 'a" where
  \<comment> \<open>\<open>raise last_exception\<close>; \<open>raise None\<close> is a \<open>TypeError\<close>.\<close>
  "raise_last last_exception =
     (case last_exception of None \<Rightarrow> Inl TypeError | Some e \<Rightarrow> Inl (Failure e))"

text \<open>
  The loop \<open>for attempt in range(self.max_retries)\<close>, by recursion on the number of
  iterations left. \<open>func k\<close> is what the \<open>k\<close>-th call of the wrapped operation does
  (counted from 0) and \<open>rnd k\<close> the value \<open>random.random()\<close> gives in iteration \<open>k\<close>.
  The result is the trace of calls, sleeps and log lines, and what the wrapper returns
  or raises. \<open>time.sleep\<close> raises \<open>ValueError\<close> for a negative delay; it also refuses
  a delay of about \<open>9.2e9\<close> seconds or more, which no backoff reaches (a backoff is at
  most 75 seconds) and which is not modelled.
\<close>

fun attempts ::
  "RateLimiter \<Rightarrow> (string \<Rightarrow> real option) \<Rightarrow> (nat \<Rightarrow> real) \<Rightarrow> (nat \<Rightarrow> failure + 'a) \<Rightarrow>
   nat \<Rightarrow> nat \<Rightarrow> failure option \<Rightarrow> event list \<times> (error + 'a)" where
  "attempts rl to_float rnd func 0 attempt last_exception = ([], raise_last last_exception)"
| "attempts rl to_float rnd func (Suc left) attempt last_exception =
     (case func attempt of
        Inr result \<Rightarrow>
          (Call attempt # (if attempt > 0 then [Log (Success_after (attempt + 1))] else []),
           Inr result)
      | Inl e \<Rightarrow>
          (case on_failure rl to_float (rnd attempt) attempt e of
             (logs, Raise err) \<Rightarrow> (Call attempt # logs, Inl err)
           | (logs, Break) \<Rightarrow> (Call attempt # logs, raise_last (Some e))
           | (logs, Wait delay) \<Rightarrow>
               if int attempt < max_retries rl - 1 then
                 if delay < 0 then (Call attempt # logs, Inl ValueError)
                 else
                   (let (tr, res) = attempts rl to_float rnd func left (attempt + 1) (Some e)
                    in (Call attempt # logs @ Sleep delay # tr, res))
               else
                 (let (tr, res) = attempts rl to_float rnd func left (attempt + 1) (Some e)
                  in (Call attempt # logs @ Log (Max_retries_exceeded (max_retries rl)) # tr,
                      res))))"

definition rate_limit_decorator ::
  "RateLimiter \<Rightarrow> (string \<Rightarrow> real option) \<Rightarrow> (nat \<Rightarrow> real) \<Rightarrow> (nat \<Rightarrow> failure + 'a) \<Rightarrow>
   event list \<times> (error + 'a)" where
  "rate_limit_decorator rl to_float rnd func =
     attempts rl to_float rnd func (nat (max_retries rl)) 0 None"

fun calls :: "event list \<Rightarrow> nat" where
  "calls [] = 0"
| "calls (Call k # tr) = Suc (calls tr)"
| "calls (ev # tr) = calls tr"

fun sleeps :: "event list \<Rightarrow> real list" where
  "sleeps [] = []"
| "sleeps (Sleep d # tr) = d # sleeps tr"
| "sleeps (ev # tr) = sleeps tr"

fun after_last_call :: "event list \<Rightarrow> event list" where
  \<comment> \<open>The events that follow the last call of the wrapped operation.\<close>
  "after_last_call [] = []"
| "after_last_call (ev # tr) =
     (if calls tr = 0 then (case ev of Call k \<Rightarrow> tr | _ \<Rightarrow> ev # tr)
      else after_last_call tr)"

text \<open>
  A run of the wrapper exhausts the attempts when every call \<open>k\<close> below
  \<open>max_retries\<close> fails and the handler goes on to the next iteration: it chooses a
  delay, and \<open>time.sleep\<close> accepts that delay where the iteration sleeps.
\<close>

definition retried ::
  "RateLimiter \<Rightarrow> (string \<Rightarrow> real option) \<Rightarrow> (nat \<Rightarrow> real) \<Rightarrow> (nat \<Rightarrow> failure + 'a) \<Rightarrow> nat \<Rightarrow> bool" where
  "retried rl to_float rnd func k =
     (case func k of
        Inr result \<Rightarrow> False
      | Inl e \<Rightarrow>
          (case snd (on_failure rl to_float (rnd k) k e) of
             Wait delay \<Rightarrow> \<not> (int k < max_retries rl - 1 \<and> delay < 0)
           | Break \<Rightarrow> False
           | Raise err \<Rightarrow> False))"

definition exhausts ::
  "RateLimiter \<Rightarrow> (string \<Rightarrow> real option) \<Rightarrow> (nat \<Rightarrow> real) \<Rightarrow> (nat \<Rightarrow> failure + 'a) \<Rightarrow> bool" where
  "exhausts rl to_float rnd func =
     list_all (retried rl to_float rnd func) [0..<nat (max_retries rl)]"

section \<open>Extraction: the reshaping of one worksheet\<close>

definition reshape_row :: "string list \<Rightarrow> string list \<Rightarrow> string list" where
  \<comment> \<open>The body of \<open>for row in values[3:]\<close> before \<open>data_rows.append(row)\<close>.\<close>
  "reshape_row header row =
     (if length row < length header
      then row @ replicate (length header - length row) []
      else if length row > length header then take (length header) row
      else row)"

definition worksheet_table :: "string list list \<Rightarrow> (string list \<times> string list list) option" where
  \<comment> \<open>The header and the data rows a worksheet gives to \<open>pd.DataFrame\<close>; \<open>None\<close>
      where no frame is made.\<close>
  "worksheet_table values =
     (if values \<noteq> [] then
        if length values > 3 then
          (let header = values ! 2;
               data_rows = map (reshape_row header) (drop 3 values)
           in if data_rows \<noteq> [] then Some (header, data_rows) else None)
        else if length values > 1 then
          (let header = values ! 0;
               data_rows = map (reshape_row header) (drop 1 values)
           in if data_rows \<noteq> [] then Some (header, data_rows) else None)
        else None
      else None)"

record dataframe =
  columns :: "string list"
  rows :: "string list list"

definition empty :: "dataframe \<Rightarrow> bool" where
  \<comment> \<open>\<open>DataFrame.empty\<close>: an axis of length 0.\<close>
  "empty df = (columns df = [] \<or> rows df = [])"

definition fetch_sheet_data_except :: "string \<Rightarrow> failure \<Rightarrow> log list \<times> failure" where
  \<comment> \<open>The \<open>except\<close> branch of \<open>_fetch_sheet_data\<close>: log the sanitized text, re-raise.\<close>
  "fetch_sheet_data_except sheet_name e =
     ([Fetch_failed sheet_name (sanitize_error_message (message e))], e)"

section \<open>Archival: \<open>_upload_to_s3\<close>\<close>

record datetime =
  year :: nat
  month :: nat
  day :: nat
  hour :: nat
  minute :: nat
  second :: nat

definition valid_datetime :: "datetime \<Rightarrow> bool" where
  \<comment> \<open>A wall-clock time \<open>datetime.now\<close> can give, with a year of four digits.\<close>
  "valid_datetime dt =
     (1000 \<le> year dt \<and> year dt \<le> 9999 \<and> 1 \<le> month dt \<and> month dt \<le> 12
      \<and> 1 \<le> day dt \<and> day dt \<le> 31 \<and> hour dt < 24 \<and> minute dt < 60 \<and> second dt < 60)"

definition digit :: "nat \<Rightarrow> char" where
  "digit n = char_of (48 + n)"

definition pad2 :: "nat \<Rightarrow> string" where
  "pad2 n = [digit (n div 10), digit (n mod 10)]"

definition pad4 :: "nat \<Rightarrow> string" where
  "pad4 n =
     [digit (n div 1000), digit (n div 100 mod 10), digit (n div 10 mod 10), digit (n mod 10)]"

definition hour12 :: "nat \<Rightarrow> nat" where
  \<comment> \<open>\<open>%I\<close>: the hour on the 12-hour clock.\<close>
  "hour12 h = (if h mod 12 = 0 then 12 else h mod 12)"

definition am_pm :: "nat \<Rightarrow> string" where
  \<comment> \<open>\<open>%p\<close>\<close>
  "am_pm h = (if h < 12 then ''AM'' else ''PM'')"

definition strftime :: "datetime \<Rightarrow> string" where
  \<comment> \<open>\<open>strftime('%Y%m%d_%I-%M%p_WAT')\<close>\<close>
  "strftime dt =
     pad4 (year dt) @ pad2 (month dt) @ pad2 (day dt) @ ''_'' @ pad2 (hour12 (hour dt))
     @ ''-'' @ pad2 (minute dt) @ am_pm (hour dt) @ ''_WAT''"

definition same_minute :: "datetime \<Rightarrow> datetime \<Rightarrow> bool" where
  \<comment> \<open>Two times that agree in all that the time stamp renders.\<close>
  "same_minute a b =
     (year a = year b \<and> month a = month b \<and> day a = day b \<and> hour a = hour b
      \<and> minute a = minute b)"

text \<open>
  One call of the undecorated \<open>_upload_to_s3\<close>. \<open>now\<close> is \<open>datetime.now(wat_tz)\<close>,
  \<open>to_parquet\<close> the serialisation, \<open>put_error\<close> what \<open>put_object\<close> raises
  (\<open>None\<close> when it stores the object) and \<open>bucket\<close> the objects of the bucket by key.
  The result is the log, the locator or the exception, and the bucket afterwards.
\<close>

definition upload_to_s3 ::
  "(dataframe \<Rightarrow> failure + 'b) \<Rightarrow> failure option \<Rightarrow> string \<Rightarrow> datetime \<Rightarrow> (string \<rightharpoonup> 'b) \<Rightarrow>
   dataframe \<Rightarrow> string \<Rightarrow> log list \<times> (failure + string) \<times> (string \<rightharpoonup> 'b)" where
  "upload_to_s3 to_parquet put_error bucket_name now bucket data name =
     (let timestamp = strftime now;
          s3_key = ''pullus/sales/'' @ name @ ''/'' @ timestamp @ ''.parquet''
      in case to_parquet data of
           Inl e \<Rightarrow> ([Upload_failed name (message e)], Inl e, bucket)
         | Inr parquet_buffer \<Rightarrow>
             (case put_error of
                Some e \<Rightarrow> ([Upload_failed name (message e)], Inl e, bucket)
              | None \<Rightarrow>
                  (let s3_url = ''s3://'' @ bucket_name @ ''/'' @ s3_key
                   in ([Uploaded name s3_url], Inr s3_url,
                       bucket(s3_key \<mapsto> parquet_buffer)))))"

section \<open>The batch: \<open>SheetsBackup\<close> and \<open>main\<close>\<close>

record outcome =
  sheet_name :: string
  success :: bool
  error :: "string option"
  s3_url :: "string option"
  rows_backed_up :: nat
  duration_seconds :: real

text \<open>
  What one run meets outside the program. An exception is seen by the batch only through
  \<open>str(e)\<close>, so a raising call is \<open>Inl\<close> of that text. \<open>fetch\<close> and \<open>upload\<close> are
  the decorated \<open>_fetch_sheet_data\<close> and \<open>_upload_to_s3\<close>; \<open>elapsed\<close> is
  \<open>round(time.time() - start_time, 2)\<close> for a sheet.
\<close>

record world =
  google_init :: "string option"
  s3_init :: "string option"
  fetch :: "string \<Rightarrow> string \<Rightarrow> string + dataframe"
  upload :: "dataframe \<Rightarrow> string \<Rightarrow> string + string"
  elapsed :: "string \<Rightarrow> real"
  post :: "string option"

record SheetsBackup =
  backup_results :: "outcome list"

definition SheetsBackup_init :: "world \<Rightarrow> string + SheetsBackup" where
  \<comment> \<open>\<open>__init__\<close>: both initialisers log and re-raise.\<close>
  "SheetsBackup_init w =
     (case google_init w of
        Some e \<Rightarrow> Inl e
      | None \<Rightarrow>
          (case s3_init w of
             Some e \<Rightarrow> Inl e
           | None \<Rightarrow> Inr \<lparr>backup_results = []\<rparr>))"

definition backup_single_sheet :: "world \<Rightarrow> string \<Rightarrow> string \<Rightarrow> outcome" where
  "backup_single_sheet w name sheet_id =
     (let result = \<lparr>sheet_name = name, success = False, error = None, s3_url = None,
                     rows_backed_up = 0, duration_seconds = 0\<rparr>
      in case fetch w sheet_id name of
           Inl e \<Rightarrow>
             result\<lparr>error := Some (sanitize_error_message e),
                    duration_seconds := elapsed w name\<rparr>
         | Inr data \<Rightarrow>
             if empty data then result\<lparr>error := Some ''No data found in sheet''\<rparr>
             else
               (case upload w data name of
                  Inl e \<Rightarrow>
                    result\<lparr>error := Some (sanitize_error_message e),
                           duration_seconds := elapsed w name\<rparr>
                | Inr url \<Rightarrow>
                    result\<lparr>success := True, s3_url := Some url,
                           rows_backed_up := length (rows data),
                           duration_seconds := elapsed w name\<rparr>))"

text \<open>
  \<open>SHEETS_CONFIG\<close> is what \<open>json.loads\<close> returned: a mapping, with its items in
  order, or another JSON value, on which \<open>.items()\<close> raises.
\<close>

datatype config = Mapping "(string \<times> string) list" | Not_mapping

definition get_sheets_config :: "(string \<Rightarrow> string + config) \<Rightarrow> string option \<Rightarrow> string + config" where
  \<comment> \<open>\<open>config.get_sheets_config\<close>. \<open>sheets_json\<close> is
      \<open>os.getenv('SHEETS_CONFIG_JSON')\<close> and \<open>json_loads\<close> the parser (\<open>Inl\<close> the text
      of its \<open>JSONDecodeError\<close>); \<open>Inl\<close> is the text of the \<open>ValueError\<close> raised.\<close>
  "get_sheets_config json_loads sheets_json =
     (case sheets_json of
        None \<Rightarrow> Inl ''SHEETS_CONFIG_JSON environment variable not found''
      | Some text \<Rightarrow>
          if text = [] then Inl ''SHEETS_CONFIG_JSON environment variable not found''
          else
            (case json_loads text of
               Inl e \<Rightarrow> Inl (''Invalid JSON in SHEETS_CONFIG_JSON: '' @ e)
             | Inr cfg \<Rightarrow> Inr cfg))"

fun process_items :: "world \<Rightarrow> (string \<times> string) list \<Rightarrow> SheetsBackup \<Rightarrow> SheetsBackup" where
  \<comment> \<open>The loop of \<open>backup_all_sheets\<close>. The pause between two items changes no
      result and is left out.\<close>
  "process_items w [] backup = backup"
| "process_items w ((name, sheet_id) # rest) backup =
     process_items w rest
       (backup\<lparr>backup_results := backup_results backup @ [backup_single_sheet w name sheet_id]\<rparr>)"

definition backup_all_sheets ::
  "world \<Rightarrow> config \<Rightarrow> SheetsBackup \<Rightarrow> string + SheetsBackup \<times> outcome list" where
  "backup_all_sheets w cfg backup =
     (case cfg of
        Not_mapping \<Rightarrow> Inl ''AttributeError''
      | Mapping items \<Rightarrow>
          (let backup' = process_items w items backup
           in Inr (backup', backup_results backup')))"

datatype notification_status = Partial_success | Full_success | Failed

record notification =
  headline :: notification_status
  total_sheets :: nat
  successful_sheets :: nat
  failed_sheets :: nat
  total_rows :: nat
  failed_details :: "(string \<times> string option) list"

definition notification_of :: "outcome list \<Rightarrow> notification" where
  "notification_of results =
     (let successful = filter success results;
          failed = filter (\<lambda>r. \<not> success r) results
      in \<lparr>headline = (if failed \<noteq> [] then Partial_success
                       else if successful \<noteq> [] then Full_success else Failed),
          total_sheets = length results,
          successful_sheets = length successful,
          failed_sheets = length failed,
          total_rows = sum_list (map rows_backed_up successful),
          failed_details = map (\<lambda>r. (sheet_name r, error r)) failed\<rparr>)"

definition send_notification :: "world \<Rightarrow> outcome list \<Rightarrow> string + notification" where
  \<comment> \<open>The body catches every exception of the post and logs its text (\<open>Inl\<close>); nothing
      is raised, so the wrapper around it returns after the first call.\<close>
  "send_notification w results =
     (case post w of
        None \<Rightarrow> Inr (notification_of results)
      | Some e \<Rightarrow> Inl e)"

definition exit_code :: "outcome list \<Rightarrow> int" where
  \<comment> \<open>The summary at the end of \<open>main\<close>.\<close>
  "exit_code results =
     (let successful = length (filter success results);
          total = length results
      in if successful = total then 0
         else if successful > 0 then 1
         else 2)"

definition run :: "world \<Rightarrow> config \<Rightarrow> string + outcome list" where
  \<comment> \<open>The outcome sequence \<open>main\<close> classifies, or the exception its handler catches.\<close>
  "run w cfg =
     (case SheetsBackup_init w of
        Inl e \<Rightarrow> Inl e
      | Inr backup \<Rightarrow>
          (case backup_all_sheets w cfg backup of
             Inl e \<Rightarrow> Inl e
           | Inr (backup', results) \<Rightarrow> Inr results))"

definition main :: "world \<Rightarrow> config \<Rightarrow> int" where
  "main w cfg =
     (case SheetsBackup_init w of
        Inl e \<Rightarrow> 3
      | Inr backup \<Rightarrow>
          (case backup_all_sheets w cfg backup of
             Inl e \<Rightarrow> 3
           | Inr (backup', results) \<Rightarrow>
               (let sent = send_notification w results
                in exit_code results)))"

text \<open>
  The process \<open>python backup_sheets.py\<close>. The module imports \<open>SHEETS_CONFIG\<close> from
  \<open>config\<close>, whose body calls \<open>get_sheets_config\<close>; that import stands before
  \<open>main\<close> and outside its \<open>try\<close>, so a \<open>ValueError\<close> there is not caught: the
  interpreter prints the traceback and ends with status 1. Otherwise \<open>main\<close> runs.
\<close>

definition backup_sheets :: "(string \<Rightarrow> string + config) \<Rightarrow> string option \<Rightarrow> world \<Rightarrow> int" where
  "backup_sheets json_loads sheets_json w =
     (case get_sheets_config json_loads sheets_json of
        Inl e \<Rightarrow> 1
      | Inr cfg \<Rightarrow> main w cfg)"

section \<open>Concrete runs\<close>

text \<open>
  Inputs on which the properties below are evaluated. For the wrapper: operations that
  fail in the same way at every call, a rate-limited response that names a wait of 30
  seconds, a \<open>float\<close> that converts nothing or only the text \<open>30\<close>, and a random
  source that always gives 0.
\<close>

definition always_503 :: "nat \<Rightarrow> failure + nat" where
  "always_503 k = Inl \<lparr>status = Some 503, retry_after = None, message = ''unavailable''\<rparr>"

definition denied :: "nat \<Rightarrow> failure + nat" where
  "denied k =
     Inl \<lparr>status = Some 403, retry_after = None,
          message = ''The caller does not have permission''\<rparr>"

definition rate_limited_30 :: failure where
  \<comment> \<open>The \<open>HttpError\<close> of a response with status 429 and the header
      \<open>Retry-After: 30\<close>.\<close>
  "rate_limited_30 =
     http_error \<lparr>resp_status = 429, resp_reason = ''Too Many Requests'',
                 resp_headers = [(''retry-after'', ''30'')]\<rparr> ''Too Many Requests''"

definition no_float :: "string \<Rightarrow> real option" where
  "no_float s = None"

definition float_30 :: "string \<Rightarrow> real option" where
  "float_30 s = (if s = ''30'' then Some 30 else None)"

definition no_jitter :: "nat \<Rightarrow> real" where
  "no_jitter k = 0"

text \<open>
  For the batch: three configured sheets, and the worlds of the four scenarios (all
  succeed; the first sheet has no rows; every fetch is refused; the credentials are
  rejected at start).
\<close>

definition frame1 :: dataframe where
  "frame1 = \<lparr>columns = [''id'', ''sheet_name''], rows = [[''1'', ''Jan'']]\<rparr>"

definition frame2 :: dataframe where
  "frame2 = \<lparr>columns = [''id'', ''sheet_name''], rows = [[''2'', ''Feb'']]\<rparr>"

definition three_sheets :: config where
  "three_sheets = Mapping [(''a'', ''id1''), (''b'', ''id2''), (''c'', ''id3'')]"

definition healthy :: world where
  "healthy = \<lparr>google_init = None, s3_init = None,
              fetch = (\<lambda>sheet_id name. Inr frame1),
              upload = (\<lambda>data name. Inr (''s3://bucket/pullus/sales/'' @ name)),
              elapsed = (\<lambda>name. 2), post = None\<rparr>"

definition first_empty :: world where
  "first_empty = healthy\<lparr>fetch := (\<lambda>sheet_id name.
       if name = ''a'' then Inr \<lparr>columns = [], rows = []\<rparr> else Inr frame1)\<rparr>"

definition all_denied :: world where
  "all_denied = healthy\<lparr>fetch := (\<lambda>sheet_id name. Inl ''permission denied'')\<rparr>"

definition no_credentials :: world where
  "no_credentials = healthy\<lparr>google_init := Some ''Incorrect padding''\<rparr>"

text \<open>
  For the archival: three wall-clock times, two of them in the same minute, a
  serialisation that keeps the rows, and uploads of \<open>frame1\<close> and then \<open>frame2\<close> for
  the item \<open>sales\<close> into a bucket that starts empty.
\<close>

definition quarter_past_ten :: datetime where
  "quarter_past_ten = \<lparr>year = 2025, month = 3, day = 4, hour = 10, minute = 15, second = 1\<rparr>"

definition same_minute_later :: datetime where
  "same_minute_later = quarter_past_ten\<lparr>second := 40\<rparr>"

definition next_minute :: datetime where
  "next_minute = quarter_past_ten\<lparr>minute := 16\<rparr>"

definition as_rows :: "dataframe \<Rightarrow> failure + string list list" where
  "as_rows df = Inr (rows df)"

definition first_upload ::
  "log list \<times> (failure + string) \<times> (string \<rightharpoonup> string list list)" where
  "first_upload =
     upload_to_s3 as_rows None ''bucket'' quarter_past_ten Map.empty frame1 ''sales''"

definition second_upload ::
  "log list \<times> (failure + string) \<times> (string \<rightharpoonup> string list list)" where
  "second_upload =
     upload_to_s3 as_rows None ''bucket'' same_minute_later (snd (snd first_upload)) frame2
       ''sales''"

definition later_upload ::
  "log list \<times> (failure + string) \<times> (string \<rightharpoonup> string list list)" where
  "later_upload =
     upload_to_s3 as_rows None ''bucket'' next_minute (snd (snd first_upload)) frame2
       ''sales''"

text \<open>An exception of \<open>put_object\<close> whose text holds a 44-character identifier.\<close>

definition leak :: failure where
  "leak = \<lparr>status = None, retry_after = None,
            message = ''Access Denied (request id 1BxiMVs0XRA5nFMdKvBdBZjgmUUqptlbs74OgvE2upms)''\<rparr>"

section \<open>Properties\<close>

subsection \<open>The wrapper: \<open>rate_limit_decorator\<close>\<close>

text \<open>
  Facts on traces: the calls and sleeps of a trace, and what follows its last call.
\<close>

lemma calls_append: "calls (tr1 @ tr2) = calls tr1 + calls tr2"
  by (induction tr1 rule: calls.induct) simp_all

lemma sleeps_append: "sleeps (tr1 @ tr2) = sleeps tr1 @ sleeps tr2"
  by (induction tr1 rule: sleeps.induct) simp_all

lemma on_failure_logs:
  "on_failure rl to_float r attempt e = (logs, dec) \<Longrightarrow> calls logs = 0 \<and> sleeps logs = []"
  by (auto simp: on_failure_def split: option.splits if_splits sum.splits)

lemma after_last_call_no_calls: "calls tr = 0 \<Longrightarrow> after_last_call tr = tr"
  by (induction tr rule: calls.induct) simp_all

lemma after_last_call_append:
  "0 < calls tr2 \<Longrightarrow> after_last_call (tr1 @ tr2) = after_last_call tr2"
  by (induction tr1) (simp_all add: calls_append)

lemma on_failure_break:
  "snd (on_failure rl to_float r attempt e) = Break \<longleftrightarrow> classify e = Non_retryable"
  by (auto simp: on_failure_def classify_def split: option.splits if_splits sum.splits)

lemma attempts_exhausted:
  assumes "\<forall>j. k \<le> j \<and> j < k + left \<longrightarrow> retried rl to_float rnd func j"
    and "int (k + left) = max_retries rl"
    and "0 < left"
  shows "\<exists>e tr. func (k + left - 1) = Inl e
           \<and> attempts rl to_float rnd func left k prev = (tr, Inl (Failure e))
           \<and> calls tr = left \<and> length (sleeps tr) = left - 1
           \<and> sleeps (after_last_call tr) = []"
  using assms
proof (induction left arbitrary: k prev)
  case 0
  then show ?case by simp
next
  case (Suc left)
  from Suc.prems(1) have rk: "retried rl to_float rnd func k" by simp
  then obtain e where fk: "func k = Inl e"
    by (auto simp: retried_def split: sum.splits)
  obtain logs dec where of: "on_failure rl to_float (rnd k) k e = (logs, dec)"
    by (cases "on_failure rl to_float (rnd k) k e")
  from rk fk of obtain d where dec: "dec = Wait d"
    and dpos: "\<not> (int k < max_retries rl - 1 \<and> d < 0)"
    by (auto simp: retried_def split: decision.splits)
  from on_failure_logs [OF of] have lg: "calls logs = 0" "sleeps logs = []" by simp_all
  show ?case
  proof (cases left)
    case 0
    with Suc.prems(2) have lastit: "\<not> int k < max_retries rl - 1" by simp
    from 0 fk of dec lastit lg show ?thesis
      by (simp add: raise_last_def calls_append sleeps_append after_last_call_no_calls)
  next
    case (Suc m)
    with Suc.prems(2) have notlast: "int k < max_retries rl - 1" by simp
    with dpos have d0: "\<not> d < 0" by simp
    have "\<forall>j. Suc k \<le> j \<and> j < Suc k + left \<longrightarrow> retried rl to_float rnd func j"
      using Suc.prems(1) by simp
    moreover have "int (Suc k + left) = max_retries rl" using Suc.prems(2) by simp
    moreover have "0 < left" using Suc by simp
    ultimately obtain e' tr where
      IH: "func (Suc k + left - 1) = Inl e'"
          "attempts rl to_float rnd func left (Suc k) (Some e) = (tr, Inl (Failure e'))"
          "calls tr = left" "length (sleeps tr) = left - 1"
          "sleeps (after_last_call tr) = []"
      using Suc.IH [of "Suc k" "Some e"] by blast
    have c0: "0 < calls (Sleep d # tr)" using IH(3) \<open>0 < left\<close> by simp
    have alc: "after_last_call (Call k # logs @ Sleep d # tr) = after_last_call tr"
      using after_last_call_append [of "Sleep d # tr" "Call k # logs"] c0 IH(3) \<open>0 < left\<close>
      by simp
    from fk of dec notlast d0 IH lg \<open>0 < left\<close> alc show ?thesis
      by (simp add: calls_append sleeps_append del: after_last_call.simps)
  qed
qed

text \<open>
  When every call fails, the wrapper raises, for every classification of the failures
  and every \<open>max_retries\<close>: it never returns a value.
\<close>

lemma all_fail_never_returns:
  assumes "\<forall>j. k \<le> j \<and> j < k + left \<longrightarrow> isl (func j)"
  shows "isl (snd (attempts rl to_float rnd func left k prev))"
  using assms
proof (induction left arbitrary: k prev)
  case 0
  then show ?case by (simp add: raise_last_def split: option.splits)
next
  case (Suc left)
  from Suc.prems have "isl (func k)" by simp
  then obtain e where fk: "func k = Inl e" by (cases "func k") simp_all
  have rest: "isl (snd (attempts rl to_float rnd func left (Suc k) (Some e)))"
    using Suc.prems by (intro Suc.IH) simp
  obtain logs dec where of: "on_failure rl to_float (rnd k) k e = (logs, dec)"
    by (cases "on_failure rl to_float (rnd k) k e")
  show ?case
    using fk of rest
    by (cases dec) (simp_all add: raise_last_def split_def Let_def)
qed

lemma wrapper_never_returns_when_all_fail:
  "\<forall>j. isl (func j) \<Longrightarrow> isl (snd (rate_limit_decorator rl to_float rnd func))"
  unfolding rate_limit_decorator_def by (rule all_fail_never_returns) simp

lemma always_503_exhausts: "exhausts default_limiter no_float no_jitter always_503"
proof -
  have "retried default_limiter no_float no_jitter always_503 k" if "k < 5" for k
    using that
    by (simp add: retried_def default_limiter_def RateLimiter_init_def always_503_def
        on_failure_def exponential_backoff_with_jitter_def backoff_def no_jitter_def
        min_less_iff_disj not_less)
  then show ?thesis
    by (simp add: exhausts_def list_all_iff default_limiter_def RateLimiter_init_def)
qed

text \<open>
  \<^bold>\<open>Claim C2.\<close> When a run of the wrapper exhausts the attempts (every one of the
  \<open>max_retries\<close> calls fails and is retried, with \<open>max_retries\<close> positive as in
  \<open>RateLimiter()\<close>), the wrapper raises the failure of the last call: it does not return
  a value and raises no other exception. It has made \<open>max_retries\<close> calls and slept
  \<open>max_retries - 1\<close> times, and no sleep follows the last call.
\<close>

theorem terminal_failure_reraised:
  assumes "0 < max_retries rl" and "exhausts rl to_float rnd func"
  shows "\<exists>e. func (nat (max_retries rl) - 1) = Inl e
           \<and> snd (rate_limit_decorator rl to_float rnd func) = Inl (Failure e)
           \<and> calls (fst (rate_limit_decorator rl to_float rnd func)) = nat (max_retries rl)
           \<and> length (sleeps (fst (rate_limit_decorator rl to_float rnd func))) = nat (max_retries rl) - 1
           \<and> sleeps (after_last_call (fst (rate_limit_decorator rl to_float rnd func))) = []"
proof -
  let ?n = "nat (max_retries rl)"
  have "\<forall>j. 0 \<le> j \<and> j < 0 + ?n \<longrightarrow> retried rl to_float rnd func j"
    using assms(2) by (simp add: exhausts_def list_all_iff)
  moreover have "int (0 + ?n) = max_retries rl" using assms(1) by simp
  moreover have "0 < ?n" using assms(1) by simp
  ultimately show ?thesis
    using attempts_exhausted [of 0 ?n rl to_float rnd func None]
    by (auto simp: rate_limit_decorator_def)
qed

theorem terminal_failure_reraised_witness:
  "0 < max_retries default_limiter \<and> exhausts default_limiter no_float no_jitter always_503
   \<and> snd (rate_limit_decorator default_limiter no_float no_jitter always_503)
       = Inl (Failure \<lparr>status = Some 503, retry_after = None, message = ''unavailable''\<rparr>)
   \<and> calls (fst (rate_limit_decorator default_limiter no_float no_jitter always_503)) = 5
   \<and> length (sleeps (fst (rate_limit_decorator default_limiter no_float no_jitter always_503))) = 4
   \<and> sleeps (after_last_call (fst (rate_limit_decorator default_limiter no_float no_jitter always_503))) = []"
proof -
  have m: "0 < max_retries default_limiter"
    by (simp add: default_limiter_def RateLimiter_init_def)
  have n: "nat (max_retries default_limiter) = 5"
    by (simp add: default_limiter_def RateLimiter_init_def)
  have f: "always_503 4 = Inl \<lparr>status = Some 503, retry_after = None, message = ''unavailable''\<rparr>"
    by (simp add: always_503_def)
  from terminal_failure_reraised [OF m always_503_exhausts] m always_503_exhausts n f show ?thesis
    by auto
qed

text \<open>
  The condition in the words of the claim (no 429, no status of 500 or more, no keyword)
  gives the classification of the handler.
\<close>

lemma non_retryable_by_words:
  "status e \<noteq> Some 429 \<Longrightarrow> (\<forall>s. status e = Some s \<longrightarrow> s < 500) \<Longrightarrow> \<not> quota_or_rate (message e)
   \<Longrightarrow> classify e = Non_retryable"
  by (auto simp: classify_def split: option.splits)

text \<open>
  \<^bold>\<open>Claim C4.\<close> When the first call fails with a failure the handler classifies as
  non-retryable (a status that is neither 429 nor 500 or more, or no status and neither
  \<open>quota\<close> nor \<open>rate\<close> in the text), the wrapper raises that failure after exactly one
  call of the operation and without any sleep, whatever the later calls would do.
\<close>

theorem non_retryable_aborts:
  assumes "0 < max_retries rl" and "func 0 = Inl e" and "classify e = Non_retryable"
  shows "snd (rate_limit_decorator rl to_float rnd func) = Inl (Failure e)
       \<and> calls (fst (rate_limit_decorator rl to_float rnd func)) = 1
       \<and> sleeps (fst (rate_limit_decorator rl to_float rnd func)) = []"
proof -
  obtain m where n: "nat (max_retries rl) = Suc m"
    using assms(1) by (cases "nat (max_retries rl)") simp_all
  obtain logs dec where of: "on_failure rl to_float (rnd 0) 0 e = (logs, dec)"
    by (cases "on_failure rl to_float (rnd 0) 0 e")
  with assms(3) have "dec = Break"
    using on_failure_break [of rl to_float "rnd 0" 0 e] by simp
  with of assms(2) n on_failure_logs [OF of] show ?thesis
    by (simp add: rate_limit_decorator_def raise_last_def calls_append sleeps_append)
qed

theorem non_retryable_aborts_witness:
  "0 < max_retries default_limiter
   \<and> classify \<lparr>status = Some 403, retry_after = None, message = ''The caller does not have permission''\<rparr> = Non_retryable
   \<and> snd (rate_limit_decorator default_limiter no_float no_jitter denied)
       = Inl (Failure \<lparr>status = Some 403, retry_after = None, message = ''The caller does not have permission''\<rparr>)
   \<and> calls (fst (rate_limit_decorator default_limiter no_float no_jitter denied)) = 1
   \<and> sleeps (fst (rate_limit_decorator default_limiter no_float no_jitter denied)) = []"
proof -
  have m: "0 < max_retries default_limiter"
    by (simp add: default_limiter_def RateLimiter_init_def)
  have c: "classify \<lparr>status = Some 403, retry_after = None, message = ''The caller does not have permission''\<rparr> = Non_retryable"
    by (simp add: classify_def)
  have d: "denied 0 = Inl \<lparr>status = Some 403, retry_after = None, message = ''The caller does not have permission''\<rparr>"
    by (simp add: denied_def)
  from non_retryable_aborts [where rl = default_limiter and func = denied, OF m d c] m c
  show ?thesis by simp
qed

lemma backoff_init: "backoff (RateLimiter_init n) attempt = min (2 ^ attempt) 60"
  by (simp add: backoff_def RateLimiter_init_def)

lemma backoff_mono: "i \<le> j \<Longrightarrow> backoff (RateLimiter_init n) i \<le> backoff (RateLimiter_init n) j"
proof -
  assume "i \<le> j"
  then have "(2::real) ^ i \<le> 2 ^ j" by (simp add: power_increasing)
  then show ?thesis unfolding backoff_init by (simp add: min_le_iff_disj)
qed

text \<open>
  Below the attempt index 1024 and for every value \<open>0 \<le> r < 1\<close> of
  \<open>random.random()\<close>: the backoff before jitter is \<open>min (1.0 * 2 ^ attempt) 60.0\<close>, it
  does not decrease when the index grows, and the delay returned is that backoff plus a
  jitter between 0 and a quarter of it. These are the indices of every wrapper of the
  source, whose \<open>max_retries\<close> is 5.
\<close>

lemma backoff_bounds:
  assumes "attempt < 1024" and "0 \<le> r" and "r < 1"
  shows "backoff (RateLimiter_init n) attempt = min (1.0 * 2 ^ attempt) 60.0
       \<and> (\<forall>j. attempt \<le> j \<longrightarrow> backoff (RateLimiter_init n) attempt \<le> backoff (RateLimiter_init n) j)
       \<and> (\<exists>jitter. exponential_backoff_with_jitter (RateLimiter_init n) r attempt
                      = Inr (backoff (RateLimiter_init n) attempt + jitter)
              \<and> 0 \<le> jitter \<and> jitter \<le> 0.25 * backoff (RateLimiter_init n) attempt)"
proof -
  let ?d = "backoff (RateLimiter_init n) attempt"
  have d0: "0 \<le> ?d" by (simp add: backoff_init)
  have e: "exponential_backoff_with_jitter (RateLimiter_init n) r attempt = Inr (?d + ?d * 0.25 * r)"
    using assms(1) by (simp add: exponential_backoff_with_jitter_def Let_def)
  have j0: "0 \<le> ?d * 0.25 * r" using d0 assms(2) by simp
  have "?d * r \<le> ?d * 1" using d0 assms(3) by (intro mult_left_mono) simp_all
  then have j1: "?d * 0.25 * r \<le> 0.25 * ?d" by simp
  have a: "?d = min (1.0 * 2 ^ attempt) 60.0" by (simp add: backoff_init)
  have b: "\<forall>j. attempt \<le> j \<longrightarrow> ?d \<le> backoff (RateLimiter_init n) j"
    using backoff_mono by blast
  have c: "\<exists>jitter. exponential_backoff_with_jitter (RateLimiter_init n) r attempt = Inr (?d + jitter)
              \<and> 0 \<le> jitter \<and> jitter \<le> 0.25 * ?d"
    using e j0 j1 by blast
  from a b c show ?thesis by blast
qed

lemma backoff_bounds_at_4:
  "(4::nat) < 1024 \<and> (0::real) \<le> 1/2 \<and> (1/2::real) < 1
   \<and> backoff default_limiter 4 = 16
   \<and> backoff default_limiter 4 \<le> backoff default_limiter 7
   \<and> exponential_backoff_with_jitter default_limiter (1/2) 4 = Inr 18"
proof -
  have a: "(4::nat) < 1024" "(0::real) \<le> 1/2" "(1/2::real) < 1" by simp_all
  have e: "exponential_backoff_with_jitter default_limiter (1/2) 4 = Inr 18"
    by (simp add: exponential_backoff_with_jitter_def default_limiter_def backoff_init)
  from backoff_bounds [OF a, of 5] e show ?thesis
    by (auto simp: default_limiter_def)
qed

text \<open>
  From the attempt index 1024 on, the call raises for every limiter and random value.
\<close>

lemma backoff_raises_from_1024:
  "1024 \<le> attempt \<Longrightarrow> exponential_backoff_with_jitter rl r attempt = Inl OverflowError"
  by (simp add: exponential_backoff_with_jitter_def)


text \<open>
  The branch of the handler that reads the suggested wait: for a failure with status 429
  whose \<open>resp\<close> object has an attribute \<open>retry-after\<close> with a non-empty text that
  \<open>float\<close> converts to \<open>d\<close>, the delay is \<open>d\<close>, for every attempt index and random
  value.
\<close>

lemma retry_after_branch:
  assumes "status e = Some 429" and "retry_after e = Some h" and "h \<noteq> []"
    and "to_float h = Some d"
  shows "on_failure rl to_float r attempt e = ([Log (Rate_limited_header d)], Wait d)"
  using assms by (simp add: on_failure_def)

text \<open>
  No \<open>HttpError\<close> reaches that branch: whatever the headers of the response are, the
  lookup of the attribute gives \<open>None\<close>, and a response with status 429 is delayed by
  the backoff with jitter.
\<close>

lemma http_error_no_retry_after: "retry_after (http_error resp msg) = None"
  by (simp add: http_error_def response_getattr_def)

lemma http_error_429_backoff:
  assumes "resp_status resp = 429"
  shows "on_failure rl to_float r attempt (http_error resp msg) =
     (case exponential_backoff_with_jitter rl r attempt of
        Inr delay \<Rightarrow> ([Log (Rate_limited_backoff delay)], Wait delay)
      | Inl err \<Rightarrow> ([], Raise err))"
  using assms by (simp add: on_failure_def http_error_def response_getattr_def)

text \<open>
  \<^bold>\<open>Claim C6\<close> fails on the rate-limited responses the program receives. For the
  \<open>HttpError\<close> of a response with status 429 and the header \<open>Retry-After: 30\<close>, at
  the first attempt and with the random value 1/2, the handler finds no suggested wait
  and chooses the backoff with jitter, 9/8 seconds, where the claim says 30.
\<close>

theorem retry_after_header_ignored:
  "retry_after rate_limited_30 = None
   \<and> on_failure default_limiter float_30 (1/2) 0 rate_limited_30
       = ([Log (Rate_limited_backoff (9/8))], Wait (9/8))"
proof -
  have "exponential_backoff_with_jitter default_limiter (1/2) 0 = Inr (9/8)"
    by (simp add: exponential_backoff_with_jitter_def default_limiter_def RateLimiter_init_def
        backoff_def)
  then show ?thesis
    unfolding rate_limited_30_def
    by (simp add: http_error_no_retry_after http_error_429_backoff)
qed

subsection \<open>The batch and the exit code\<close>

text \<open>
  The batch appends one outcome per item, in the order of the mapping.
\<close>

lemma process_items_results:
  "backup_results (process_items w items backup)
     = backup_results backup @ map (\<lambda>(name, sheet_id). backup_single_sheet w name sheet_id) items"
  by (induction w items backup rule: process_items.induct) simp_all

lemma run_results:
  "google_init w = None \<Longrightarrow> s3_init w = None \<Longrightarrow>
   run w (Mapping items) = Inr (map (\<lambda>(name, sheet_id). backup_single_sheet w name sheet_id) items)"
  by (simp add: run_def SheetsBackup_init_def backup_all_sheets_def process_items_results)

text \<open>
  \<open>main\<close> is the classification of what \<open>run\<close> gives.
\<close>

lemma main_run: "main w cfg = (case run w cfg of Inl e \<Rightarrow> 3 | Inr results \<Rightarrow> exit_code results)"
  by (simp add: main_def run_def split: sum.splits prod.splits)

lemma filter_all: "length (filter P xs) = length xs \<longleftrightarrow> (\<forall>x\<in>set xs. P x)"
  by (metis filter_id_conv length_filter_less less_irrefl_nat filter_True)

lemma exit_code_cases:
  "exit_code results =
     (if \<forall>r\<in>set results. success r then 0
      else if \<exists>r\<in>set results. success r then 1 else 2)"
  by (auto simp: exit_code_def Let_def filter_all filter_empty_conv)

text \<open>
  The exit code of \<open>main\<close>, for a run in which the mapping was loaded. When the
  run produces an outcome sequence: 0 if every outcome has \<open>success\<close>, 1 if some
  outcome has it and some has not, 2 if there is an outcome and none has it. When an
  exception escapes the initialisation or the batch before the classification: 3.
\<close>

lemma exit_code_four_ways:
  "(\<forall>results. run w cfg = Inr results \<longrightarrow>
      ((\<forall>r\<in>set results. success r) \<longrightarrow> main w cfg = 0)
    \<and> ((\<exists>r\<in>set results. success r) \<and> (\<exists>r\<in>set results. \<not> success r) \<longrightarrow> main w cfg = 1)
    \<and> (results \<noteq> [] \<and> (\<forall>r\<in>set results. \<not> success r) \<longrightarrow> main w cfg = 2))
   \<and> (\<forall>e. run w cfg = Inl e \<longrightarrow> main w cfg = 3)"
  by (auto simp: main_run exit_code_cases)

text \<open>
  The four ways on the scenarios of the specification: all succeed, the first sheet has
  no rows, every fetch is refused, the credentials are rejected.
\<close>

lemma exit_code_scenarios:
  "main healthy three_sheets = 0 \<and> main first_empty three_sheets = 1
   \<and> main all_denied three_sheets = 2 \<and> main no_credentials three_sheets = 3"
proof -
  let ?rs = "\<lambda>w. map (\<lambda>(name, sheet_id). backup_single_sheet w name sheet_id)
        [(''a'', ''id1''), (''b'', ''id2''), (''c'', ''id3'')]"
  have r1: "run healthy three_sheets = Inr (?rs healthy)"
    unfolding three_sheets_def by (rule run_results) (simp_all add: healthy_def)
  have r2: "run first_empty three_sheets = Inr (?rs first_empty)"
    unfolding three_sheets_def by (rule run_results) (simp_all add: first_empty_def healthy_def)
  have r3: "run all_denied three_sheets = Inr (?rs all_denied)"
    unfolding three_sheets_def by (rule run_results) (simp_all add: all_denied_def healthy_def)
  have r4: "run no_credentials three_sheets = Inl ''Incorrect padding''"
    by (simp add: run_def SheetsBackup_init_def no_credentials_def healthy_def)
  have h1: "\<forall>r\<in>set (?rs healthy). success r"
    by (simp add: backup_single_sheet_def healthy_def frame1_def empty_def)
  have h2: "(\<exists>r\<in>set (?rs first_empty). success r) \<and> (\<exists>r\<in>set (?rs first_empty). \<not> success r)"
    by (simp add: backup_single_sheet_def first_empty_def healthy_def frame1_def empty_def)
  have h3: "?rs all_denied \<noteq> [] \<and> (\<forall>r\<in>set (?rs all_denied). \<not> success r)"
    by (simp add: backup_single_sheet_def all_denied_def healthy_def)
  note c1 = exit_code_four_ways [of healthy three_sheets, THEN conjunct1, THEN spec, THEN mp, OF r1]
  note c2 = exit_code_four_ways [of first_empty three_sheets, THEN conjunct1, THEN spec, THEN mp, OF r2]
  note c3 = exit_code_four_ways [of all_denied three_sheets, THEN conjunct1, THEN spec, THEN mp, OF r3]
  note c4 = exit_code_four_ways [of no_credentials three_sheets, THEN conjunct2, THEN spec, THEN mp, OF r4]
  from c1 h1 have "main healthy three_sheets = 0" by blast
  moreover from c2 h2 have "main first_empty three_sheets = 1" by blast
  moreover from c3 h3 have "main all_denied three_sheets = 2" by blast
  ultimately show ?thesis using c4 by blast
qed

text \<open>
  A mapping that is not JSON ends the process with status 1, a mapping that loads
  hands over to \<open>main\<close>.
\<close>

lemma malformed_mapping_exits_1:
  "text \<noteq> [] \<Longrightarrow> json_loads text = Inl e \<Longrightarrow> backup_sheets json_loads (Some text) w = 1"
  by (simp add: backup_sheets_def get_sheets_config_def)

lemma loaded_mapping_runs_main:
  "text \<noteq> [] \<Longrightarrow> json_loads text = Inr cfg \<Longrightarrow> backup_sheets json_loads (Some text) w = main w cfg"
  by (simp add: backup_sheets_def get_sheets_config_def)

text \<open>
  \<^bold>\<open>Claim C1\<close> fails on a missing mapping. With \<open>SHEETS_CONFIG_JSON\<close> unset the
  process ends with status 1, the code of a partial success, for every world: the
  \<open>ValueError\<close> of \<open>get_sheets_config\<close> is raised at import, where the handler of
  \<open>main\<close> does not reach. The startup failure that \<open>main\<close> does catch, a rejected
  credential, ends with status 3.
\<close>

theorem missing_mapping_exits_1:
  "backup_sheets json_loads None w = 1 \<and> main no_credentials three_sheets = 3"
proof -
  have "backup_sheets json_loads None w = 1"
    by (simp add: backup_sheets_def get_sheets_config_def)
  moreover have "main no_credentials three_sheets = 3"
    by (simp add: main_def SheetsBackup_init_def no_credentials_def healthy_def)
  ultimately show ?thesis by (rule conjI)
qed

text \<open>
  \<^bold>\<open>Claim C3.\<close> The outcome recorded for an item has \<open>success\<close> exactly when the
  extraction returned a frame that is not empty and the archival of that frame returned
  a locator. In every other case (the extraction raised, it returned an empty frame, or
  the archival raised) \<open>success\<close> is false.
\<close>

theorem success_iff_extracted_and_archived:
  "success (backup_single_sheet w name sheet_id) \<longleftrightarrow>
     (\<exists>data url. fetch w sheet_id name = Inr data \<and> \<not> empty data \<and> upload w data name = Inr url)"
  by (auto simp: backup_single_sheet_def Let_def split: sum.splits if_splits)

theorem success_iff_extracted_and_archived_witness:
  "success (backup_single_sheet healthy ''a'' ''id1'')
   \<and> \<not> success (backup_single_sheet first_empty ''a'' ''id1'')"
proof -
  have "\<exists>data url. fetch healthy ''id1'' ''a'' = Inr data \<and> \<not> empty data \<and> upload healthy data ''a'' = Inr url"
    by (simp add: healthy_def frame1_def empty_def)
  then have a: "success (backup_single_sheet healthy ''a'' ''id1'')"
    by (rule success_iff_extracted_and_archived [THEN iffD2])
  have "\<not> (\<exists>data url. fetch first_empty ''id1'' ''a'' = Inr data \<and> \<not> empty data \<and> upload first_empty data ''a'' = Inr url)"
    by (simp add: first_empty_def healthy_def empty_def)
  then have b: "\<not> success (backup_single_sheet first_empty ''a'' ''id1'')"
    using success_iff_extracted_and_archived [of first_empty "''a''" "''id1''"] by blast
  from a b show ?thesis by (rule conjI)
qed

text \<open>
  \<^bold>\<open>Claim C10.\<close> With an empty mapping of items (and both initialisers succeeding),
  the run produces the empty outcome sequence and \<open>main\<close> exits with code 0: the test
  \<open>successful == total\<close> comes first and holds for 0 = 0. That is the code of every
  outcome sequence in which all items succeeded, so the exit code does not tell the
  empty run from a run that succeeded on every item.
\<close>

theorem empty_mapping_exits_0:
  assumes "google_init w = None" and "s3_init w = None"
  shows "run w (Mapping []) = Inr [] \<and> main w (Mapping []) = 0
       \<and> ((\<forall>r\<in>set results. success r) \<longrightarrow> exit_code results = main w (Mapping []))"
  using assms by (simp add: main_run run_results exit_code_cases)

theorem empty_mapping_exits_0_witness:
  "google_init healthy = None \<and> s3_init healthy = None
   \<and> run healthy (Mapping []) = Inr [] \<and> main healthy (Mapping []) = 0
   \<and> exit_code [backup_single_sheet healthy ''a'' ''id1''] = main healthy (Mapping [])"
proof -
  have a: "google_init healthy = None" and b: "s3_init healthy = None"
    by (simp_all add: healthy_def)
  have c: "\<forall>r\<in>set [backup_single_sheet healthy ''a'' ''id1'']. success r"
    by (simp add: backup_single_sheet_def healthy_def frame1_def empty_def)
  from empty_mapping_exits_0 [OF a b, of "[backup_single_sheet healthy ''a'' ''id1'']"] a b c
  show ?thesis by blast
qed

subsection \<open>The reshaping of rows\<close>

lemma reshape_row_len: "length (reshape_row header row) = length header"
  by (simp add: reshape_row_def)

text \<open>
  \<^bold>\<open>Claim C9.\<close> For every header and row, the reshaped row has the length of the
  header: it is the first \<open>length header\<close> cells of the row (all of a shorter row),
  followed by one empty text for every cell a shorter row lacks.
\<close>

theorem reshape_row_length:
  "length (reshape_row header row) = length header
   \<and> reshape_row header row = take (length header) row @ replicate (length header - length row) []"
  by (simp add: reshape_row_def)

theorem reshape_row_length_witness:
  "reshape_row [''a'', ''b'', ''c''] [''1''] = [''1'', [], []]
   \<and> reshape_row [''a'', ''b'', ''c''] [''1'', ''2'', ''3'', ''4''] = [''1'', ''2'', ''3'']"
  using reshape_row_length [of "[''a'', ''b'', ''c'']" "[''1'']"]
    reshape_row_length [of "[''a'', ''b'', ''c'']" "[''1'', ''2'', ''3'', ''4'']"]
  by (simp add: numeral_3_eq_3)

text \<open>
  So every data row of the table of a worksheet has the length of its header.
\<close>

lemma worksheet_table_rows:
  "worksheet_table values = Some (header, data_rows) \<Longrightarrow> \<forall>row\<in>set data_rows. length row = length header"
  by (auto simp: worksheet_table_def Let_def reshape_row_len split: if_splits)

subsection \<open>The destinations of the archival\<close>

lemma digit_inj: "a < 10 \<Longrightarrow> b < 10 \<Longrightarrow> digit a = digit b \<longleftrightarrow> a = b"
  by (simp add: digit_def char_of_eq_iff take_bit_eq_mod)

lemma decimal2: "(n::nat) = n div 10 * 10 + n mod 10"
  by simp

lemma decimal4:
  "(n::nat) = n div 1000 * 1000 + n div 100 mod 10 * 100 + n div 10 mod 10 * 10 + n mod 10"
proof -
  define q1 q2 q3 r0 r1 r2 where "q1 = n div 10" and "q2 = q1 div 10" and "q3 = q2 div 10"
    and "r0 = n mod 10" and "r1 = q1 mod 10" and "r2 = q2 mod 10"
  have 1: "n = q1 * 10 + r0" by (simp add: q1_def r0_def)
  have 2: "q1 = q2 * 10 + r1" by (simp add: q2_def r1_def)
  have 3: "q2 = q3 * 10 + r2" by (simp add: q3_def r2_def)
  have a: "n div 100 = q2" by (simp add: q2_def q1_def div_mult2_eq)
  have b: "n div 1000 = q3" by (simp add: q3_def q2_def q1_def div_mult2_eq)
  have "n = q3 * 1000 + r2 * 100 + r1 * 10 + r0" using 1 2 3 by simp
  then show ?thesis
    unfolding a b unfolding r2_def r1_def r0_def q1_def .
qed

lemma pad2_inj: "a < 100 \<Longrightarrow> b < 100 \<Longrightarrow> pad2 a = pad2 b \<longleftrightarrow> a = b"
proof
  assume a: "a < 100" and b: "b < 100" and eq: "pad2 a = pad2 b"
  from a b have "a div 10 < 10" "b div 10 < 10" "a mod 10 < 10" "b mod 10 < 10" by simp_all
  with eq have e: "a div 10 = b div 10" "a mod 10 = b mod 10"
    by (simp_all add: pad2_def digit_inj)
  have "a = a div 10 * 10 + a mod 10" by (rule decimal2)
  also have "\<dots> = b div 10 * 10 + b mod 10" by (simp only: e)
  also have "\<dots> = b" by (rule decimal2 [symmetric])
  finally show "a = b" .
qed simp

lemma pad4_inj: "a < 10000 \<Longrightarrow> b < 10000 \<Longrightarrow> pad4 a = pad4 b \<longleftrightarrow> a = b"
proof
  assume a: "a < 10000" and b: "b < 10000" and eq: "pad4 a = pad4 b"
  from a b have "a div 1000 < 10" "b div 1000 < 10" by simp_all
  with eq have e: "a div 1000 = b div 1000" "a div 100 mod 10 = b div 100 mod 10"
    "a div 10 mod 10 = b div 10 mod 10" "a mod 10 = b mod 10"
    by (simp_all add: pad4_def digit_inj)
  have "a = a div 1000 * 1000 + a div 100 mod 10 * 100 + a div 10 mod 10 * 10 + a mod 10"
    by (rule decimal4)
  also have "\<dots> = b div 1000 * 1000 + b div 100 mod 10 * 100 + b div 10 mod 10 * 10 + b mod 10"
    by (simp only: e)
  also have "\<dots> = b" by (rule decimal4 [symmetric])
  finally show "a = b" .
qed simp

lemma hour_of_clock:
  assumes "h < 24"
  shows "h = hour12 h mod 12 + (if am_pm h = ''AM'' then 0 else 12)"
proof (cases "h < 12")
  case True
  then show ?thesis by (simp add: hour12_def am_pm_def)
next
  case False
  then obtain k where k: "h = 12 + k" by (metis le_add_diff_inverse not_less)
  with assms have "k < 12" by simp
  then show ?thesis by (simp add: k hour12_def am_pm_def)
qed

lemma hour_inj:
  "a < 24 \<Longrightarrow> b < 24 \<Longrightarrow> hour12 a = hour12 b \<and> am_pm a = am_pm b \<longleftrightarrow> a = b"
proof
  assume a: "a < 24" and b: "b < 24" and eq: "hour12 a = hour12 b \<and> am_pm a = am_pm b"
  have "a = hour12 a mod 12 + (if am_pm a = ''AM'' then 0 else 12)"
    by (rule hour_of_clock [OF a])
  also have "\<dots> = hour12 b mod 12 + (if am_pm b = ''AM'' then 0 else 12)"
    using eq by simp
  also have "\<dots> = b" by (rule hour_of_clock [OF b, symmetric])
  finally show "a = b" .
qed simp

lemma pad2_len: "length (pad2 n) = 2"
  by (simp add: pad2_def)

lemma pad4_len: "length (pad4 n) = 4"
  by (simp add: pad4_def)

lemma am_pm_len: "length (am_pm n) = 2"
  by (simp add: am_pm_def)

lemma hour12_bound: "hour12 h < 100"
proof -
  have "h mod 12 < 12" by simp
  then have "h mod 12 < 100" by linarith
  then show ?thesis by (simp add: hour12_def)
qed

lemma strftime_inj:
  assumes "valid_datetime a" and "valid_datetime b"
  shows "strftime a = strftime b \<longleftrightarrow> same_minute a b"
proof -
  have s: "strftime a = strftime b \<longleftrightarrow>
      pad4 (year a) = pad4 (year b) \<and> pad2 (month a) = pad2 (month b)
      \<and> pad2 (day a) = pad2 (day b) \<and> pad2 (hour12 (hour a)) = pad2 (hour12 (hour b))
      \<and> pad2 (minute a) = pad2 (minute b) \<and> am_pm (hour a) = am_pm (hour b)"
    by (simp add: strftime_def pad2_len pad4_len am_pm_len)
  have y: "pad4 (year a) = pad4 (year b) \<longleftrightarrow> year a = year b"
    using assms by (simp add: valid_datetime_def pad4_inj)
  have m: "pad2 (month a) = pad2 (month b) \<longleftrightarrow> month a = month b"
    using assms by (simp add: valid_datetime_def pad2_inj)
  have d: "pad2 (day a) = pad2 (day b) \<longleftrightarrow> day a = day b"
    using assms by (simp add: valid_datetime_def pad2_inj)
  have mi: "pad2 (minute a) = pad2 (minute b) \<longleftrightarrow> minute a = minute b"
    using assms by (simp add: valid_datetime_def pad2_inj)
  have h12: "pad2 (hour12 (hour a)) = pad2 (hour12 (hour b)) \<longleftrightarrow> hour12 (hour a) = hour12 (hour b)"
    by (simp add: pad2_inj hour12_bound)
  have h: "hour12 (hour a) = hour12 (hour b) \<and> am_pm (hour a) = am_pm (hour b) \<longleftrightarrow> hour a = hour b"
    using assms by (intro hour_inj) (simp_all add: valid_datetime_def)
  have "strftime a = strftime b \<longleftrightarrow>
      year a = year b \<and> month a = month b \<and> day a = day b
      \<and> (hour12 (hour a) = hour12 (hour b) \<and> am_pm (hour a) = am_pm (hour b))
      \<and> minute a = minute b"
    unfolding s y m d mi h12 by (simp only: conj_ac)
  then show ?thesis
    unfolding h same_minute_def .
qed

lemma strftime_eval:
  "strftime quarter_past_ten = ''20250304_10-15AM_WAT''"
  "strftime same_minute_later = ''20250304_10-15AM_WAT''"
  "strftime next_minute = ''20250304_10-16AM_WAT''"
  by code_simp+

lemma first_upload_eval:
  "first_upload =
     ([Uploaded ''sales'' ''s3://bucket/pullus/sales/sales/20250304_10-15AM_WAT.parquet''],
      Inr ''s3://bucket/pullus/sales/sales/20250304_10-15AM_WAT.parquet'',
      [''pullus/sales/sales/20250304_10-15AM_WAT.parquet'' \<mapsto> [[''1'', ''Jan'']]])"
  by (simp add: first_upload_def upload_to_s3_def Let_def as_rows_def frame1_def strftime_eval)

lemma second_upload_eval:
  "second_upload =
     ([Uploaded ''sales'' ''s3://bucket/pullus/sales/sales/20250304_10-15AM_WAT.parquet''],
      Inr ''s3://bucket/pullus/sales/sales/20250304_10-15AM_WAT.parquet'',
      [''pullus/sales/sales/20250304_10-15AM_WAT.parquet'' \<mapsto> [[''2'', ''Feb'']]])"
  by (simp add: second_upload_def first_upload_eval upload_to_s3_def Let_def as_rows_def
      frame2_def strftime_eval)

lemma later_upload_eval:
  "later_upload =
     ([Uploaded ''sales'' ''s3://bucket/pullus/sales/sales/20250304_10-16AM_WAT.parquet''],
      Inr ''s3://bucket/pullus/sales/sales/20250304_10-16AM_WAT.parquet'',
      [''pullus/sales/sales/20250304_10-15AM_WAT.parquet'' \<mapsto> [[''1'', ''Jan'']],
       ''pullus/sales/sales/20250304_10-16AM_WAT.parquet'' \<mapsto> [[''2'', ''Feb'']]])"
  by (simp add: later_upload_def first_upload_eval upload_to_s3_def Let_def as_rows_def
      frame2_def strftime_eval)

text \<open>
  \<^bold>\<open>Claim C8, amended.\<close> Two successful calls of the archival for the same item, at
  the wall-clock times \<open>t1\<close> and then \<open>t2\<close>, give equal locators exactly when the two
  times agree in year, month, day, hour and minute. When they do not, the two keys
  differ and after the second call the bucket holds the first object under the first
  key and the second under the second.
\<close>

theorem archival_distinct_unless_same_minute:
  assumes "valid_datetime t1" and "valid_datetime t2"
    and "upload_to_s3 to_parquet None bucket_name t1 b0 data1 name = (l1, Inr u1, b1)"
    and "upload_to_s3 to_parquet None bucket_name t2 b1 data2 name = (l2, Inr u2, b2)"
  shows "(u1 = u2 \<longleftrightarrow> same_minute t1 t2)
       \<and> (\<exists>k1 k2 p1 p2. u1 = ''s3://'' @ bucket_name @ ''/'' @ k1 \<and> u2 = ''s3://'' @ bucket_name @ ''/'' @ k2
             \<and> b1 = b0(k1 \<mapsto> p1) \<and> b2 = b1(k2 \<mapsto> p2)
             \<and> (\<not> same_minute t1 t2 \<longrightarrow> k1 \<noteq> k2 \<and> b2 k1 = Some p1 \<and> b2 k2 = Some p2))"
proof -
  let ?k1 = "''pullus/sales/'' @ name @ ''/'' @ strftime t1 @ ''.parquet''"
  let ?k2 = "''pullus/sales/'' @ name @ ''/'' @ strftime t2 @ ''.parquet''"
  obtain p1 where p1: "to_parquet data1 = Inr p1"
    using assms(3) by (cases "to_parquet data1") (simp_all add: upload_to_s3_def Let_def)
  obtain p2 where p2: "to_parquet data2 = Inr p2"
    using assms(4) by (cases "to_parquet data2") (simp_all add: upload_to_s3_def Let_def)
  have u1: "u1 = ''s3://'' @ bucket_name @ ''/'' @ ?k1" and b1: "b1 = b0(?k1 \<mapsto> p1)"
    using assms(3) p1 by (simp_all add: upload_to_s3_def Let_def)
  have u2: "u2 = ''s3://'' @ bucket_name @ ''/'' @ ?k2" and b2: "b2 = b1(?k2 \<mapsto> p2)"
    using assms(4) p2 by (simp_all add: upload_to_s3_def Let_def)
  have k: "?k1 = ?k2 \<longleftrightarrow> same_minute t1 t2"
    using strftime_inj [OF assms(1,2)] by simp
  have u: "u1 = u2 \<longleftrightarrow> same_minute t1 t2"
    unfolding u1 u2 using k by simp
  have keep: "\<not> same_minute t1 t2 \<longrightarrow> ?k1 \<noteq> ?k2 \<and> b2 ?k1 = Some p1 \<and> b2 ?k2 = Some p2"
    unfolding b1 b2 using k by simp
  note all = conjI [OF u1 conjI [OF u2 conjI [OF b1 conjI [OF b2 keep]]]]
  have "\<exists>k1 k2 p1 p2. u1 = ''s3://'' @ bucket_name @ ''/'' @ k1 \<and> u2 = ''s3://'' @ bucket_name @ ''/'' @ k2
             \<and> b1 = b0(k1 \<mapsto> p1) \<and> b2 = b1(k2 \<mapsto> p2)
             \<and> (\<not> same_minute t1 t2 \<longrightarrow> k1 \<noteq> k2 \<and> b2 k1 = Some p1 \<and> b2 k2 = Some p2)"
    apply (rule exI [of _ ?k1])
    apply (rule exI [of _ ?k2])
    apply (rule exI [of _ p1])
    apply (rule exI [of _ p2])
    apply (rule all)
    done
  with u show ?thesis by (rule conjI)
qed

theorem archival_distinct_unless_same_minute_witness:
  "valid_datetime quarter_past_ten \<and> valid_datetime next_minute
   \<and> \<not> same_minute quarter_past_ten next_minute
   \<and> fst (snd first_upload) \<noteq> fst (snd later_upload)
   \<and> snd (snd later_upload) ''pullus/sales/sales/20250304_10-15AM_WAT.parquet''
       = Some [[''1'', ''Jan'']]"
proof -
  have v: "valid_datetime quarter_past_ten" "valid_datetime next_minute"
    by (simp_all add: valid_datetime_def quarter_past_ten_def next_minute_def)
  have n: "\<not> same_minute quarter_past_ten next_minute"
    by (simp add: same_minute_def quarter_past_ten_def next_minute_def)
  have 1: "upload_to_s3 as_rows None ''bucket'' quarter_past_ten Map.empty frame1 ''sales''
      = (fst first_upload, Inr ''s3://bucket/pullus/sales/sales/20250304_10-15AM_WAT.parquet'',
         snd (snd first_upload))"
    unfolding first_upload_def [symmetric] by (simp add: first_upload_eval)
  have 2: "upload_to_s3 as_rows None ''bucket'' next_minute (snd (snd first_upload)) frame2 ''sales''
      = (fst later_upload, Inr ''s3://bucket/pullus/sales/sales/20250304_10-16AM_WAT.parquet'',
         snd (snd later_upload))"
    unfolding later_upload_def [symmetric] by (simp add: later_upload_eval)
  from archival_distinct_unless_same_minute [OF v 1 2] n
  have "''s3://bucket/pullus/sales/sales/20250304_10-15AM_WAT.parquet''
      \<noteq> ''s3://bucket/pullus/sales/sales/20250304_10-16AM_WAT.parquet''"
    by blast
  then have "fst (snd first_upload) \<noteq> fst (snd later_upload)"
    by (simp add: first_upload_eval later_upload_eval)
  moreover have "snd (snd later_upload) ''pullus/sales/sales/20250304_10-15AM_WAT.parquet''
      = Some [[''1'', ''Jan'']]"
    by (simp add: later_upload_eval)
  ultimately show ?thesis using v n by blast
qed

text \<open>
  Two calls for the same item in the same minute (10:15:01 and 10:15:40) give the same
  locator, and the second call replaces the object the first call stored.
\<close>

theorem archival_same_minute_counterexample:
  "fst (snd first_upload) = fst (snd second_upload)
   \<and> snd (snd first_upload) ''pullus/sales/sales/20250304_10-15AM_WAT.parquet'' = Some [[''1'', ''Jan'']]
   \<and> snd (snd second_upload) ''pullus/sales/sales/20250304_10-15AM_WAT.parquet'' = Some [[''2'', ''Feb'']]"
  by (simp add: first_upload_eval second_upload_eval)

subsection \<open>Error texts in the log\<close>

text \<open>
  \<^bold>\<open>Claim C7\<close> fails on \<open>_upload_to_s3\<close>. When \<open>put_object\<close> raises an exception
  whose text holds a 44-character identifier, the log line of \<open>_upload_to_s3\<close> carries
  that text as it is, where the \<open>except\<close> branch of \<open>_fetch_sheet_data\<close> logs the
  same text with the identifier replaced by \<open>[SHEET_ID]\<close>.
\<close>

theorem upload_failure_logged_unsanitized:
  "fst (upload_to_s3 as_rows (Some leak) ''bucket'' quarter_past_ten Map.empty frame1 ''sales'')
     = [Upload_failed ''sales''
          ''Access Denied (request id 1BxiMVs0XRA5nFMdKvBdBZjgmUUqptlbs74OgvE2upms)'']
   \<and> fst (fetch_sheet_data_except ''sales'' leak)
     = [Fetch_failed ''sales'' ''Access Denied (request id [SHEET_ID])'']"
proof -
  have s: "sanitize_error_message ''Access Denied (request id 1BxiMVs0XRA5nFMdKvBdBZjgmUUqptlbs74OgvE2upms)''
      = ''Access Denied (request id [SHEET_ID])''"
    by code_simp
  show ?thesis
    by (simp add: upload_to_s3_def as_rows_def leak_def fetch_sheet_data_except_def s)
qed

end
